theory Spec2Isabelle
  imports
    Main
    "HOL-Library.Word"
    "HOL-Library.Signed_Division"
    "HOL-Library.Char_ord"
    "HOL-Library.List_Lexorder"
begin

unbundle bit_operations_syntax

section \<open>Linux virtual display layer (src/platform/linux/virtual\_display.cpp)\<close>

text \<open>
  A shallow embedding of the EVDI-backed virtual display driver: the EDID synthesizer, the
  driver life cycle, the registry of virtual displays and the watchdog thread. The global
  variables of the translation unit are the fields of one state record, every public
  function takes the state and returns the new one, and everything the code asks of the
  outside world (the dynamic loader, the EVDI library, the kernel) is an argument.
\<close>

subsection \<open>Machine types\<close>

type_synonym u8 = "8 word"
type_synonym u16 = "16 word"
type_synonym u32 = "32 word"

text \<open>A C \<open>int\<close> argument: 32 bits, read as two's complement by \<open>sint\<close>.\<close>
type_synonym i32 = "32 word"

text \<open>Pointers (\<open>evdi_handle\<close>, the \<open>dlopen\<close> handle) are addresses; 0 is \<open>nullptr\<close>.\<close>
type_synonym evdi_handle = nat

subsection \<open>EDID synthesizer\<close>

text \<open>
  \<open>store off bs buf\<close> is the run of assignments \<open>buf[off] = bs[0]; buf[off + 1] = bs[1]; ...\<close>
  on a buffer that is long enough.
\<close>

definition store :: "nat \<Rightarrow> u8 list \<Rightarrow> u8 list \<Rightarrow> u8 list" where
  "store off bs buf = take off buf @ bs @ drop (off + length bs) buf"

text \<open>
  \<open>calculate_edid_checksum(edid + off, 128)\<close>: the loop adds the first \<open>block_size - 1\<close>
  bytes in a \<open>uint8_t\<close>, and the last byte of the block becomes \<open>256 - checksum\<close>, computed
  in \<open>int\<close> and narrowed to \<open>unsigned char\<close>.
\<close>

definition calculate_edid_checksum :: "nat \<Rightarrow> u8 list \<Rightarrow> u8 list" where
  "calculate_edid_checksum off edid =
     (let block_size = 128;
          checksum = fold (\<lambda>i c. c + edid ! (off + i)) [0..<block_size - 1] (0 :: u8)
      in edid[off + block_size - 1 := word_of_nat (256 - unat checksum)])"

text \<open>
  The generic branch of \<open>create_detailed_timing_descriptor\<close> computes the pixel clock and
  the horizontal blanking in \<open>double\<close> and casts them to \<open>uint32_t\<close>. Floating point is
  not modelled: the two results are supplied by \<open>cvt width height refresh_rate\<close>, a
  parameter, as \<open>(pixel_clock_khz, h_blank)\<close>.
\<close>

type_synonym cvt_estimate = "u32 \<Rightarrow> u32 \<Rightarrow> u32 \<Rightarrow> u32 \<times> u32"

record timing =
  h_blank :: u32
  v_blank :: u32
  h_front :: u32
  h_sync :: u32
  v_front :: u32
  v_sync :: u32
  pixel_clock_khz :: u32

definition timing_parameters :: "cvt_estimate \<Rightarrow> u32 \<Rightarrow> u32 \<Rightarrow> u32 \<Rightarrow> timing" where
  "timing_parameters cvt width height refresh_rate =
     (if width = 3840 \<and> height = 2160 then
        \<lparr>h_blank = 560, v_blank = 90, h_front = 176, h_sync = 88, v_front = 8, v_sync = 10,
         pixel_clock_khz = 533250\<rparr>
      else if width = 2560 \<and> height = 1440 then
        \<lparr>h_blank = 160, v_blank = 44, h_front = 48, h_sync = 32, v_front = 3, v_sync = 5,
         pixel_clock_khz = 241500\<rparr>
      else if width = 1920 \<and> height = 1080 then
        \<lparr>h_blank = 280, v_blank = 45, h_front = 88, h_sync = 44, v_front = 4, v_sync = 5,
         pixel_clock_khz = 148500\<rparr>
      else if width = 1280 \<and> height = 720 then
        \<lparr>h_blank = 370, v_blank = 30, h_front = 110, h_sync = 40, v_front = 5, v_sync = 5,
         pixel_clock_khz = 74250\<rparr>
      else
        (let (clock, blank) = cvt width height refresh_rate
         in \<lparr>h_blank = blank, v_blank = 45, h_front = blank div 4, h_sync = blank div 4,
             v_front = 3, v_sync = 5, pixel_clock_khz = clock\<rparr>))"

definition create_detailed_timing_descriptor ::
  "cvt_estimate \<Rightarrow> u32 \<Rightarrow> u32 \<Rightarrow> u32 \<Rightarrow> u8 list" where
  "create_detailed_timing_descriptor cvt width height refresh_rate =
     (let t = timing_parameters cvt width height refresh_rate;
          h_active = width;
          v_active = height;
          pixel_clock = (ucast (pixel_clock_khz t div 10) :: u16);
          h_size_mm = (width * 600) div 3840;
          v_size_mm = (height * 340) div 2160
      in [ ucast (pixel_clock AND 0xFF),
           ucast (drop_bit 8 pixel_clock AND 0xFF),
           ucast (h_active AND 0xFF),
           ucast (h_blank t AND 0xFF),
           ucast (push_bit 4 (drop_bit 8 h_active AND 0x0F) OR (drop_bit 8 (h_blank t) AND 0x0F)),
           ucast (v_active AND 0xFF),
           ucast (v_blank t AND 0xFF),
           ucast (push_bit 4 (drop_bit 8 v_active AND 0x0F) OR (drop_bit 8 (v_blank t) AND 0x0F)),
           ucast (h_front t AND 0xFF),
           ucast (h_sync t AND 0xFF),
           ucast (push_bit 4 (v_front t AND 0x0F) OR (v_sync t AND 0x0F)),
           ucast (push_bit 6 (drop_bit 8 (h_front t) AND 0x03)
                  OR push_bit 4 (drop_bit 8 (h_sync t) AND 0x03)
                  OR push_bit 2 (drop_bit 4 (v_front t) AND 0x03)
                  OR (drop_bit 4 (v_sync t) AND 0x03)),
           ucast (h_size_mm AND 0xFF),
           ucast (v_size_mm AND 0xFF),
           ucast (push_bit 4 (drop_bit 8 h_size_mm AND 0x0F) OR (drop_bit 8 v_size_mm AND 0x0F)),
           0,
           0,
           0x1E ])"

text \<open>
  The static 256-byte buffer, cleared and then filled in the order of the source. The
  function returns a pointer to the whole buffer: the result is always the 256 bytes, and
  the length of the descriptor in it is what the caller passes on to \<open>evdi_connect\<close>.
\<close>

definition generate_edid_for_resolution :: "cvt_estimate \<Rightarrow> u32 \<Rightarrow> u32 \<Rightarrow> u32 \<Rightarrow> u8 list" where
  "generate_edid_for_resolution cvt width height refresh_rate =
     (let edid = replicate 256 (0 :: u8);
          edid = store 0 [0x00, 0xFF, 0xFF, 0xFF, 0xFF, 0xFF, 0xFF, 0x00] edid;
          edid = store 8 [0x06, 0x4C] edid;
          edid = store 10 [0x01, 0x00] edid;
          edid = store 12 [0x01, 0x00, 0x00, 0x00] edid;
          edid = store 16 [0x01, 0x22] edid;
          edid = store 18 [0x01, 0x04] edid;
          edid = store 20 [0xB5] edid;
          edid = store 21 [60, 34] edid;
          edid = store 23 [0x78] edid;
          edid = store 24 [0x3A] edid;
          edid = store 25 [0xFC, 0x81, 0xA4, 0x55, 0x4D, 0x9D, 0x25, 0x12, 0x50, 0x54] edid;
          edid = store 35 [0x21, 0x08, 0x00] edid;
          edid = store 38 [0xD1, 0xC0, 0xB3, 0x00, 0xA9, 0xC0, 0x81, 0x80, 0x81, 0xC0,
                           0x01, 0x01, 0x01, 0x01, 0x01, 0x01] edid;
          edid = store 54 (create_detailed_timing_descriptor cvt width height refresh_rate) edid;
          edid = store 72 [0x00, 0x00, 0x00, 0xFC, 0x00] edid;
          edid = store 77 (map of_char ''APOLLO VDISP'') edid;
          edid = store 89 [0x0A] edid;
          edid = store 90 [0x00, 0x00, 0x00, 0xFD, 0x00] edid;
          edid = store 95 [0x18, 0x78, 0x0F, 0xA0, 0x78, 0x00, 0x0A] edid;
          edid = store 102 (replicate 6 0x20) edid;
          edid = store 108 [0x00, 0x00, 0x00, 0x10, 0x00] edid;
          edid = store 113 (replicate 13 0x20) edid;
          needs_extension = (width > 1920 \<or> height > 1080);
          edid = store 126 [if needs_extension then 0x01 else 0x00] edid;
          edid = calculate_edid_checksum 0 edid
      in if needs_extension then
           (let edid = store 128 [0x02, 0x03, 0x18, 0x72] edid;
                edid = store 132 [0x47, 0x90, 0x04, 0x03, 0x5F, 0x60, 0x61, 0x65] edid;
                edid = store 140 [0x67, 0x03, 0x0C, 0x00, 0x10, 0x00, 0x00, 0x78] edid;
                edid = (if width \<ge> 3840
                        then store 152 (create_detailed_timing_descriptor cvt 3840 2160 60) edid
                        else edid)
            in calculate_edid_checksum 128 edid)
         else edid)"

text \<open>The sum of a block of bytes as a natural number, and the two 128-byte blocks of the buffer.\<close>

definition block_sum :: "u8 list \<Rightarrow> nat" where
  "block_sum bs = sum_list (map unat bs)"

definition edid_block :: "nat \<Rightarrow> u8 list \<Rightarrow> u8 list" where
  "edid_block n edid = take 128 (drop (128 * n) edid)"

subsection \<open>Data model\<close>

datatype DRIVER_STATUS =
  UNKNOWN | OK | FAILED | VERSION_INCOMPATIBLE | WATCHDOG_FAILED | NOT_SUPPORTED

datatype evdi_device_status = EVDI_AVAILABLE | EVDI_UNRECOGNIZED | EVDI_NOT_PRESENT

record VirtualDisplayInfo =
  name :: string
  guid_str :: string
  width :: u32
  height :: u32
  fps :: u32
  device_index :: int
  handle :: evdi_handle
  drm_fd :: int
  active :: bool
  using_evdi :: bool

text \<open>
  The table of function pointers \<open>evdi\<close>: the pointers are all set exactly when \<open>loaded\<close>
  is, so only the library handle and the flag are kept.
\<close>

record evdi_binding =
  lib_handle :: nat
  loaded :: bool

text \<open>
  Every call that leaves the process is recorded, in order: the model's account of what
  the code did to the loader, the EVDI library, the file descriptors and the callback.
  \<open>EvdiConnect h edid n\<close> is \<open>evdi.connect(h, edid, n, 0)\<close> with the contents of the
  buffer that \<open>edid\<close> points to.
\<close>

datatype event =
    DlOpen
  | DlClose
  | EvdiAddDevice
  | EvdiOpen int
  | EvdiConnect evdi_handle "u8 list" nat
  | EvdiDisconnect evdi_handle
  | EvdiClose evdi_handle
  | OpenCard int
  | CloseFd int
  | ThreadStart
  | FailCb

text \<open>
  \<open>failCb\<close>, a \<open>std::function<void()>\<close>, by what a call of it does: empty (the lambda's
  \<open>if (failCb)\<close> skips it), a callable that returns, or a callable that does not return.
  The lambda calls it inside the scan of the registry, with the \<open>lock_guard\<close> on
  \<open>vdisplay_mutex\<close> still in scope, and the mutex is not recursive: a callable that calls
  an entry point of this module that takes the mutex, as \<open>closeVDisplayDevice\<close>, never
  gets past that call and is of the last kind.
\<close>

datatype callback = EMPTY | RETURNS | BLOCKS

text \<open>
  \<open>watchdog_thread\<close>, a \<open>std::thread\<close>: not joinable (never started, or joined), executing
  the watchdog lambda (which captured the callback), or returned from it and not yet
  joined.
\<close>

datatype thread_state = NOT_JOINABLE | EXECUTING callback | RETURNED

text \<open>
  \<open>virtual_displays\<close> is a \<open>std::map\<close> keyed by the UUID string: its entries in iteration
  order, which is the order of the keys (\<open>std::string\<close> compares bytes lexicographically).
\<close>

type_synonym registry = "(string \<times> VirtualDisplayInfo) list"

record vd_state =
  evdi :: evdi_binding
  driver_status :: DRIVER_STATUS
  watchdog_running :: bool
  watchdog_thread :: thread_state
  evdi_available :: bool
  virtual_displays :: registry
  trace :: "event list"

text \<open>The static initialisers of the translation unit.\<close>

definition initial_state :: vd_state where
  "initial_state =
     \<lparr>evdi = \<lparr>lib_handle = 0, loaded = False\<rparr>, driver_status = UNKNOWN,
      watchdog_running = False, watchdog_thread = NOT_JOINABLE, evdi_available = False,
      virtual_displays = [], trace = []\<rparr>"

text \<open>
  What the outside world answers during one call: whether some candidate name of the
  library loads (\<open>dlopen_result\<close>, 0 for none) and all thirteen symbols resolve, whether
  the kernel module shows in \<open>/proc/modules\<close> or sysfs, the answers of the EVDI library
  (\<open>add_device\<close> is indexed by the slot the scan is at, since each call may answer
  differently), the descriptor that \<open>::open\<close> returns for \<open>/dev/dri/card<N>\<close>, and the
  floating-point estimate of the timing code.
\<close>

record environment =
  dlopen_result :: nat
  dlsym_ok :: bool
  module_loaded :: bool
  check_device :: "int \<Rightarrow> evdi_device_status"
  add_device :: "int \<Rightarrow> int"
  evdi_open :: "int \<Rightarrow> evdi_handle"
  open_card :: "int \<Rightarrow> int"
  get_event_ready :: "evdi_handle \<Rightarrow> int"
  fp_cvt :: cvt_estimate

subsection \<open>The registry as a \<open>std::map\<close>\<close>

text \<open>\<open>virtual_displays[k] = v\<close>: replaces the entry of \<open>k\<close>, or inserts one at its place.\<close>

fun registry_assign :: "string \<Rightarrow> 'v \<Rightarrow> (string \<times> 'v) list \<Rightarrow> (string \<times> 'v) list" where
  "registry_assign k v [] = [(k, v)]"
| "registry_assign k v ((k', v') # rest) =
     (if k = k' then (k, v) # rest
      else if k < k' then (k, v) # (k', v') # rest
      else (k', v') # registry_assign k v rest)"

text \<open>\<open>virtual_displays.find(k)\<close>, \<open>None\<close> for \<open>end()\<close>.\<close>

fun registry_find :: "string \<Rightarrow> (string \<times> 'v) list \<Rightarrow> 'v option" where
  "registry_find k [] = None"
| "registry_find k ((k', v') # rest) = (if k = k' then Some v' else registry_find k rest)"

text \<open>\<open>virtual_displays.erase(it)\<close> for the iterator that \<open>find(k)\<close> returned.\<close>

fun registry_erase :: "string \<Rightarrow> (string \<times> 'v) list \<Rightarrow> (string \<times> 'v) list" where
  "registry_erase k [] = []"
| "registry_erase k ((k', v') # rest) = (if k = k' then rest else (k', v') # registry_erase k rest)"

text \<open>The invariant of the container: keys strictly increasing, hence unique.\<close>

definition registry_wf :: "(string \<times> 'v) list \<Rightarrow> bool" where
  "registry_wf reg = sorted_wrt (<) (map fst reg)"

subsection \<open>Loading the EVDI library\<close>

definition load_evdi_library :: "environment \<Rightarrow> vd_state \<Rightarrow> bool \<times> vd_state" where
  "load_evdi_library env s =
     (if loaded (evdi s) then (True, s)
      else if dlopen_result env = 0 then
        (False, s\<lparr>evdi := (evdi s)\<lparr>lib_handle := 0\<rparr>\<rparr>)
      else if \<not> dlsym_ok env then
        (False, s\<lparr>evdi := (evdi s)\<lparr>lib_handle := 0\<rparr>, trace := trace s @ [DlOpen, DlClose]\<rparr>)
      else
        (True, s\<lparr>evdi := \<lparr>lib_handle = dlopen_result env, loaded = True\<rparr>,
                  trace := trace s @ [DlOpen]\<rparr>))"

definition unload_evdi_library :: "vd_state \<Rightarrow> vd_state" where
  "unload_evdi_library s =
     (let s = (if lib_handle (evdi s) \<noteq> 0
               then s\<lparr>evdi := (evdi s)\<lparr>lib_handle := 0\<rparr>, trace := trace s @ [DlClose]\<rparr>
               else s)
      in s\<lparr>evdi := (evdi s)\<lparr>loaded := False\<rparr>\<rparr>)"

definition check_evdi_module_loaded :: "environment \<Rightarrow> bool" where
  "check_evdi_module_loaded env = module_loaded env"

subsection \<open>Utility functions\<close>

text \<open>
  \<open>uuid_util::uuid_t\<close> is declared outside these sources; a GUID is represented by the
  string that \<open>guid.string()\<close> returns. \<open>substr(0, 8)\<close> is the first 8 characters, or
  all of them when there are fewer.
\<close>

definition generate_display_name :: "string \<Rightarrow> string" where
  "generate_display_name guid = ''VIRTUAL-'' @ take 8 guid"

text \<open>
  The scan of \<open>find_available_evdi_device\<close> over the slots still to visit; the result is
  the slot (or -1) and the calls of \<open>evdi.add_device\<close> made on the way.
\<close>

fun find_device_scan :: "environment \<Rightarrow> int list \<Rightarrow> int \<times> event list" where
  "find_device_scan env [] = (- 1, [])"
| "find_device_scan env (i # slots) =
     (case check_device env i of
        EVDI_AVAILABLE \<Rightarrow> (i, [])
      | EVDI_NOT_PRESENT \<Rightarrow>
          (let result = add_device env i
           in if result \<ge> 0 then (result, [EvdiAddDevice])
              else (let (r, evs) = find_device_scan env slots in (r, EvdiAddDevice # evs)))
      | EVDI_UNRECOGNIZED \<Rightarrow> find_device_scan env slots)"

definition find_available_evdi_device :: "environment \<Rightarrow> int \<times> event list" where
  "find_available_evdi_device env = find_device_scan env (map int [0..<16])"

text \<open>C++ division of two \<open>int\<close>s: the quotient is truncated towards zero.\<close>

definition int_div :: "i32 \<Rightarrow> i32 \<Rightarrow> i32" where
  "int_div a b = word_of_int (sint a sdiv sint b)"

subsection \<open>Driver life cycle\<close>

definition openVDisplayDevice :: "environment \<Rightarrow> vd_state \<Rightarrow> DRIVER_STATUS \<times> vd_state" where
  "openVDisplayDevice env s =
     (if driver_status s = OK then (driver_status s, s)
      else
        (let (available, s) = load_evdi_library env s;
             available = (if available then check_evdi_module_loaded env else available);
             s = s\<lparr>evdi_available := available, driver_status := OK\<rparr>
         in (driver_status s, s)))"

text \<open>The clean-up loop of \<open>closeVDisplayDevice\<close> over the registry.\<close>

fun cleanup_displays :: "registry \<Rightarrow> event list" where
  "cleanup_displays [] = []"
| "cleanup_displays ((guid, vdinfo) # rest) =
     (if active vdinfo then
        (if using_evdi vdinfo \<and> handle vdinfo \<noteq> 0
         then [EvdiDisconnect (handle vdinfo), EvdiClose (handle vdinfo)] else [])
        @ (if drm_fd vdinfo \<ge> 0 then [CloseFd (drm_fd vdinfo)] else [])
      else [])
     @ cleanup_displays rest"

text \<open>
  \<open>closeVDisplayDevice\<close>. The join is modelled as returning: the watchdog thread, told to
  stop, leaves its loop at its next test of the flag.
\<close>

definition closeVDisplayDevice :: "vd_state \<Rightarrow> vd_state" where
  "closeVDisplayDevice s =
     (let s = s\<lparr>watchdog_running := False\<rparr>;
          s = (if watchdog_thread s \<noteq> NOT_JOINABLE then s\<lparr>watchdog_thread := NOT_JOINABLE\<rparr> else s);
          s = s\<lparr>trace := trace s @ cleanup_displays (virtual_displays s)\<rparr>;
          s = s\<lparr>virtual_displays := []\<rparr>;
          s = unload_evdi_library s
      in s\<lparr>driver_status := UNKNOWN\<rparr>)"

subsection \<open>Watchdog\<close>

text \<open>
  The \<open>for\<close> loop of the watchdog over the registry: \<open>True\<close> when a liveness query
  answered a negative number, which is where the lambda calls the callback and returns.
\<close>

fun watchdog_scan :: "(evdi_handle \<Rightarrow> int) \<Rightarrow> registry \<Rightarrow> bool" where
  "watchdog_scan ready [] = False"
| "watchdog_scan ready ((guid, vdinfo) # rest) =
     (if active vdinfo \<and> using_evdi vdinfo \<and> handle vdinfo \<noteq> 0 then
        (if ready (handle vdinfo) < 0 then True else watchdog_scan ready rest)
      else watchdog_scan ready rest)"

text \<open>
  What the thread reads in one round of its \<open>while\<close> loop: the flag at the loop test, the
  flag after the sleep, and, under the lock, the registry and the answers of
  \<open>evdi.get_event_ready\<close>.
\<close>

record observation =
  running_at_loop_test :: bool
  running_after_sleep :: bool
  displays :: registry
  event_ready :: "evdi_handle \<Rightarrow> int"

text \<open>
  Where a run of the watchdog lambda has got to: still in its loop when the observations
  end, inside a call of \<open>failCb\<close> that does not return (the mutex held), or returned,
  either through the end of the loop or through the \<open>return\<close> after the callback.
\<close>

datatype thread_progress = LOOPING | IN_CALLBACK | STOPPED | LOST

definition terminated :: "thread_progress \<Rightarrow> bool" where
  "terminated p = (p = STOPPED \<or> p = LOST)"

text \<open>
  The body of the watchdog lambda, run against the rounds it gets to observe. The loop has
  no bound of its own. The second component counts the calls of \<open>failCb\<close> that the
  lambda made.
\<close>

fun watchdog_body :: "callback \<Rightarrow> observation list \<Rightarrow> thread_progress \<times> nat" where
  "watchdog_body failCb [] = (LOOPING, 0)"
| "watchdog_body failCb (ob # obs) =
     (if \<not> running_at_loop_test ob then (STOPPED, 0)
      else if \<not> running_after_sleep ob then (STOPPED, 0)
      else if watchdog_scan (event_ready ob) (displays ob) then
        (case failCb of
           EMPTY \<Rightarrow> (LOST, 0)
         | RETURNS \<Rightarrow> (LOST, 1)
         | BLOCKS \<Rightarrow> (IN_CALLBACK, 1))
      else watchdog_body failCb obs)"

text \<open>
  \<open>startPingThread\<close>. Assigning to a \<open>std::thread\<close> that is still joinable calls
  \<open>std::terminate\<close>: \<open>None\<close>.
\<close>

definition startPingThread :: "vd_state \<Rightarrow> callback \<Rightarrow> (bool \<times> vd_state) option" where
  "startPingThread s failCb =
     (if watchdog_running s then Some (True, s)
      else if watchdog_thread s \<noteq> NOT_JOINABLE then None
      else Some (True, s\<lparr>watchdog_running := True, watchdog_thread := EXECUTING failCb,
                         trace := trace s @ [ThreadStart]\<rparr>))"

text \<open>
  One round of the running watchdog thread on the shared state. Both reads of the flag
  see the state of the round: a stop requested during the sleep ends the thread just as
  one requested before it. \<open>None\<close>: the thread is inside a callback that does not
  return and keeps \<open>vdisplay_mutex\<close>, so that no entry point of the module that takes
  the mutex returns any more.
\<close>

definition watchdog_round :: "environment \<Rightarrow> vd_state \<Rightarrow> vd_state option" where
  "watchdog_round env s =
     (case watchdog_thread s of
        EXECUTING failCb \<Rightarrow>
          (case watchdog_body failCb
                  [\<lparr>running_at_loop_test = watchdog_running s,
                    running_after_sleep = watchdog_running s,
                    displays = virtual_displays s,
                    event_ready = get_event_ready env\<rparr>] of
             (LOOPING, n) \<Rightarrow> Some s
           | (IN_CALLBACK, n) \<Rightarrow> None
           | (p, n) \<Rightarrow>
               Some (s\<lparr>watchdog_thread := RETURNED, trace := trace s @ replicate n FailCb\<rparr>))
      | _ \<Rightarrow> Some s)"

subsection \<open>Creating, removing and reconfiguring displays\<close>

definition createVirtualDisplay ::
  "environment \<Rightarrow> vd_state \<Rightarrow> string \<Rightarrow> string \<Rightarrow> u32 \<Rightarrow> u32 \<Rightarrow> u32 \<Rightarrow> string \<Rightarrow> string \<times> vd_state" where
  "createVirtualDisplay env s s_client_uid s_client_name w h fps_mhz guid =
     (if driver_status s \<noteq> OK then ([], s)
      else
        (let display_name = generate_display_name guid;
             fps_hz = fps_mhz div 1000;
             vdinfo = \<lparr>name = display_name, guid_str = guid, width = w, height = h,
                       fps = fps_mhz, device_index = - 1, handle = 0, drm_fd = - 1,
                       active = True, using_evdi = False\<rparr>;
             (vdinfo, evs) =
               (if evdi_available s then
                  (let (device, evs) = find_available_evdi_device env
                   in if device \<ge> 0 then
                        (let hdl = evdi_open env device
                         in if hdl \<noteq> 0 then
                              (let edid = generate_edid_for_resolution (fp_cvt env) w h fps_hz;
                                   edid_size = (if w > 1920 \<or> h > 1080 then 256 else 128)
                               in (vdinfo\<lparr>device_index := device, handle := hdl,
                                          using_evdi := True, drm_fd := open_card env device\<rparr>,
                                   evs @ [EvdiOpen device, EvdiConnect hdl edid edid_size,
                                          OpenCard device]))
                            else (vdinfo, evs @ [EvdiOpen device]))
                      else (vdinfo, evs))
                else (vdinfo, []))
         in (display_name,
             s\<lparr>virtual_displays := registry_assign guid vdinfo (virtual_displays s),
               trace := trace s @ evs\<rparr>)))"

definition removeVirtualDisplay :: "vd_state \<Rightarrow> string \<Rightarrow> bool \<times> vd_state" where
  "removeVirtualDisplay s guid =
     (case registry_find guid (virtual_displays s) of
        None \<Rightarrow> (False, s)
      | Some vdinfo \<Rightarrow>
          (True,
           s\<lparr>virtual_displays := registry_erase guid (virtual_displays s),
             trace := trace s
               @ (if using_evdi vdinfo \<and> handle vdinfo \<noteq> 0
                  then [EvdiDisconnect (handle vdinfo), EvdiClose (handle vdinfo)] else [])
               @ (if drm_fd vdinfo \<ge> 0 then [CloseFd (drm_fd vdinfo)] else [])\<rparr>))"

text \<open>
  The loop of \<open>changeDisplaySettings\<close>: the first record with the name is updated in
  place and the function returns; \<open>None\<close> when the loop ends without a match. The
  arguments are \<open>int\<close>s: they are stored in the \<open>uint32_t\<close> fields and handed to the EDID
  synthesizer bit for bit, and tested with signed comparisons.
\<close>

fun reconfigure_scan ::
  "cvt_estimate \<Rightarrow> string \<Rightarrow> i32 \<Rightarrow> i32 \<Rightarrow> i32 \<Rightarrow> i32 \<Rightarrow> registry \<Rightarrow> (registry \<times> event list) option" where
  "reconfigure_scan est deviceName w h refresh_rate refresh_hz [] = None"
| "reconfigure_scan est deviceName w h refresh_rate refresh_hz ((guid, vdinfo) # rest) =
     (if name vdinfo = deviceName then
        Some ((guid, vdinfo\<lparr>width := w, height := h, fps := refresh_rate\<rparr>) # rest,
              if using_evdi vdinfo \<and> handle vdinfo \<noteq> 0 then
                (let edid = generate_edid_for_resolution est w h refresh_hz;
                     edid_size = (if 1920 <s w \<or> 1080 <s h then 256 else 128)
                 in [EvdiDisconnect (handle vdinfo), EvdiConnect (handle vdinfo) edid edid_size])
              else [])
      else
        (case reconfigure_scan est deviceName w h refresh_rate refresh_hz rest of
           None \<Rightarrow> None
         | Some (reg, evs) \<Rightarrow> Some ((guid, vdinfo) # reg, evs)))"

definition changeDisplaySettings ::
  "environment \<Rightarrow> vd_state \<Rightarrow> string \<Rightarrow> i32 \<Rightarrow> i32 \<Rightarrow> i32 \<Rightarrow> int \<times> vd_state" where
  "changeDisplaySettings env s deviceName w h refresh_rate =
     (let refresh_hz = int_div refresh_rate 1000
      in case reconfigure_scan (fp_cvt env) deviceName w h refresh_rate refresh_hz
                (virtual_displays s) of
           Some (reg, evs) \<Rightarrow> (0, s\<lparr>virtual_displays := reg, trace := trace s @ evs\<rparr>)
         | None \<Rightarrow> (0, s))"

definition changeDisplaySettings2 ::
  "environment \<Rightarrow> vd_state \<Rightarrow> string \<Rightarrow> i32 \<Rightarrow> i32 \<Rightarrow> i32 \<Rightarrow> bool \<Rightarrow> int \<times> vd_state" where
  "changeDisplaySettings2 env s deviceName w h refresh_rate bApplyIsolated =
     changeDisplaySettings env s deviceName w h refresh_rate"

definition setRenderAdapterByName :: "vd_state \<Rightarrow> string \<Rightarrow> bool \<times> vd_state" where
  "setRenderAdapterByName s adapterName = (True, s)"

subsection \<open>Operations as steps\<close>

text \<open>
  The operations that can change the state, each with the answers of the outside world
  during the call; the remaining entry points (\<open>matchDisplay\<close>, \<open>isEvdiDisplay\<close>,
  \<open>getEvdiCardIndex\<close>, the HDR and primary-display queries) only read it.
\<close>

datatype operation =
    OpenDriver environment
  | CloseDriver
  | StartPing callback
  | SetRenderAdapter string
  | CreateDisplay environment string string u32 u32 u32 string
  | RemoveDisplay string
  | ChangeSettings environment string i32 i32 i32
  | ChangeSettings2 environment string i32 i32 i32 bool
  | WatchdogRound environment

text \<open>
  \<open>None\<close>: the step does not return, because the process was terminated or because the
  watchdog thread is held inside its callback with the mutex.
\<close>

fun perform :: "operation \<Rightarrow> vd_state \<Rightarrow> vd_state option" where
  "perform (OpenDriver env) s = Some (snd (openVDisplayDevice env s))"
| "perform CloseDriver s = Some (closeVDisplayDevice s)"
| "perform (StartPing failCb) s = map_option snd (startPingThread s failCb)"
| "perform (SetRenderAdapter a) s = Some (snd (setRenderAdapterByName s a))"
| "perform (CreateDisplay env uid cname w h f guid) s =
     Some (snd (createVirtualDisplay env s uid cname w h f guid))"
| "perform (RemoveDisplay guid) s = Some (snd (removeVirtualDisplay s guid))"
| "perform (ChangeSettings env dn w h r) s = Some (snd (changeDisplaySettings env s dn w h r))"
| "perform (ChangeSettings2 env dn w h r isolated) s =
     Some (snd (changeDisplaySettings2 env s dn w h r isolated))"
| "perform (WatchdogRound env) s = watchdog_round env s"

fun perform_all :: "operation list \<Rightarrow> vd_state \<Rightarrow> vd_state option" where
  "perform_all [] s = Some s"
| "perform_all (a # rest) s =
     (case perform a s of None \<Rightarrow> None | Some s' \<Rightarrow> perform_all rest s')"

subsection \<open>The invariant of the records\<close>

definition record_ok :: "VirtualDisplayInfo \<Rightarrow> bool" where
  "record_ok v =
     ((using_evdi v \<longrightarrow> handle v \<noteq> 0 \<and> device_index v \<ge> 0)
      \<and> (\<not> using_evdi v \<longrightarrow> handle v = 0 \<and> device_index v = - 1))"

definition registry_invariant :: "vd_state \<Rightarrow> bool" where
  "registry_invariant s = list_all (\<lambda>(guid, v). record_ok v) (virtual_displays s)"

text \<open>The calls that release a handle or a descriptor.\<close>

fun releases :: "event \<Rightarrow> bool" where
  "releases (EvdiDisconnect h) = True"
| "releases (EvdiClose h) = True"
| "releases (CloseFd fd) = True"
| "releases e = False"

text \<open>The events that a call added to the trace.\<close>

definition emitted :: "vd_state \<Rightarrow> vd_state \<Rightarrow> event list" where
  "emitted s s' = drop (length (trace s)) (trace s')"

text \<open>Sample environments and records, for concrete instances of the theorems.\<close>

definition no_evdi :: environment where
  "no_evdi =
     \<lparr>dlopen_result = 0, dlsym_ok = False, module_loaded = False,
      check_device = (\<lambda>_. EVDI_UNRECOGNIZED), add_device = (\<lambda>_. - 1),
      evdi_open = (\<lambda>_. 0), open_card = (\<lambda>_. - 1), get_event_ready = (\<lambda>_. 0),
      fp_cvt = (\<lambda>_ _ _. (0, 0))\<rparr>"

definition working_evdi :: environment where
  "working_evdi =
     \<lparr>dlopen_result = 4096, dlsym_ok = True, module_loaded = True,
      check_device = (\<lambda>_. EVDI_AVAILABLE), add_device = (\<lambda>_. - 1),
      evdi_open = (\<lambda>d. 8192 + nat d), open_card = (\<lambda>d. 5 + d), get_event_ready = (\<lambda>_. 0),
      fp_cvt = (\<lambda>_ _ _. (0, 0))\<rparr>"

definition hw_display :: VirtualDisplayInfo where
  "hw_display =
     \<lparr>name = ''VIRTUAL-0a1b2c3d'', guid_str = ''0a1b2c3d-0000-4000-8000-000000000001'',
      width = 1920, height = 1080, fps = 60000, device_index = 0, handle = 8192, drm_fd = 5,
      active = True, using_evdi = True\<rparr>"

definition healthy_round :: observation where
  "healthy_round =
     \<lparr>running_at_loop_test = True, running_after_sleep = True,
      displays = [(''0a1b2c3d-0000-4000-8000-000000000001'', hw_display)],
      event_ready = (\<lambda>_. 0)\<rparr>"

definition failing_round :: observation where
  "failing_round = healthy_round\<lparr>event_ready := (\<lambda>_. - 1)\<rparr>"

text \<open>Sample states, for concrete instances of the theorems.\<close>

definition one_display :: vd_state where
  "one_display =
     \<lparr>evdi = \<lparr>lib_handle = 4096, loaded = True\<rparr>, driver_status = OK,
      watchdog_running = True, watchdog_thread = EXECUTING RETURNS, evdi_available = True,
      virtual_displays = [(''0a1b2c3d-0000-4000-8000-000000000001'', hw_display)],
      trace = []\<rparr>"

definition lost_evdi :: environment where
  "lost_evdi = working_evdi\<lparr>get_event_ready := (\<lambda>_. - 1)\<rparr>"

section \<open>Properties of the EDID synthesizer\<close>

lemma fold_add_sum:
  "fold (\<lambda>i c. c + f i) xs (a :: u8) = a + sum_list (map f xs)"
  by (induction xs arbitrary: a) (simp_all add: add.assoc)

lemma map_nth_drop_take:
  "off + n \<le> length xs \<Longrightarrow> map (\<lambda>i. xs ! (off + i)) [0..<n] = take n (drop off xs)"
  by (rule nth_equalityI) simp_all

lemma checksum_byte: "(word_of_nat (256 - unat (c :: u8)) :: u8) = - c"
proof -
  have le: "unat c \<le> 256" using unsigned_less [of c, where ?'a = nat] by simp
  have "(word_of_nat (256 - unat c) :: u8) = word_of_nat 256 - word_of_nat (unat c)"
    using le by (simp add: of_nat_diff)
  also have "\<dots> = - c" by simp
  finally show ?thesis .
qed

lemma calculate_edid_checksum_eq:
  assumes "off + 128 \<le> length edid"
  shows "calculate_edid_checksum off edid =
           edid[off + 127 := - sum_list (take 127 (drop off edid))]"
proof -
  have "map (\<lambda>i. edid ! (off + i)) [0..<127] = take 127 (drop off edid)"
    using assms by (intro map_nth_drop_take) simp
  then show ?thesis
    by (simp add: calculate_edid_checksum_def fold_add_sum checksum_byte) (simp add: add.commute)
qed

lemma length_calculate_edid_checksum [simp]:
  "length (calculate_edid_checksum off edid) = length edid"
  by (simp add: calculate_edid_checksum_def Let_def)

lemma length_create_detailed_timing_descriptor [simp]:
  "length (create_detailed_timing_descriptor est w h r) = 18"
  by (simp add: create_detailed_timing_descriptor_def Let_def)

lemma edid_block_checksum:
  assumes "128 * n + 128 \<le> length edid"
  shows "edid_block n (calculate_edid_checksum (128 * n) edid) =
           take 127 (drop (128 * n) edid) @ [- sum_list (take 127 (drop (128 * n) edid))]"
proof -
  have "take 128 (drop (128 * n) (edid[128 * n + 127 := v])) = take 127 (drop (128 * n) edid) @ [v]" for v
    using assms by (intro nth_equalityI) (auto simp: nth_append nth_list_update)
  then show ?thesis using assms by (simp add: edid_block_def calculate_edid_checksum_eq)
qed

lemma unat_sum_list: "unat (sum_list bs :: u8) = block_sum bs mod 256"
  by (induction bs) (simp_all add: block_sum_def unat_word_ariths mod_add_right_eq)

lemma block_sum_checksum:
  assumes "128 * n + 128 \<le> length edid"
  shows "block_sum (edid_block n (calculate_edid_checksum (128 * n) edid)) mod 256 = 0"
  by (simp add: unat_sum_list [symmetric] edid_block_checksum [OF assms])

lemma take_store_above:
  "n \<le> off \<Longrightarrow> off \<le> length buf \<Longrightarrow> take n (store off bs buf) = take n buf"
  by (simp add: store_def)

lemma take_checksum_above:
  "n \<le> off \<Longrightarrow> take n (calculate_edid_checksum off edid) = take n edid"
  by (simp add: calculate_edid_checksum_def)


lemma store_256:
  "length buf = 256 \<Longrightarrow> off + length bs \<le> 256 \<Longrightarrow> length (store off bs buf) = 256"
  by (simp add: store_def)

lemma store_base_only:
  "length buf = 256 \<and> drop 128 buf = replicate 128 0 \<Longrightarrow> off + length bs \<le> 128 \<Longrightarrow>
   length (store off bs buf) = 256 \<and> drop 128 (store off bs buf) = replicate 128 0"
  by (simp add: store_def)

lemma store_nth_single: "off < length buf \<Longrightarrow> store off [v] buf ! off = v"
  by (simp add: store_def nth_append)

lemma generate_edid_shape:
  "\<exists>base ext.
      generate_edid_for_resolution est w h r =
           (if w > 1920 \<or> h > 1080 then calculate_edid_checksum 128 ext
            else calculate_edid_checksum 0 base)
      \<and> (length base = 256 \<and> drop 128 base = replicate 128 0)
      \<and> base ! 126 = (if w > 1920 \<or> h > 1080 then 1 else 0)
      \<and> length ext = 256
      \<and> take 128 ext = take 128 (calculate_edid_checksum 0 base)"
  unfolding generate_edid_for_resolution_def Let_def
  apply (rule exI, rule exI)
  apply (rule conjI, rule refl)
  apply (rule conjI)
  subgoal by (intro store_base_only; simp)
  apply (rule conjI)
  subgoal by (rule store_nth_single) (simp add: store_256)
  apply (rule conjI)
  subgoal by (simp add: store_256)
  subgoal by (simp add: take_store_above store_256)
  done

lemma drop_checksum_base:
  "drop 128 (calculate_edid_checksum 0 edid) = drop 128 edid"
  by (simp add: calculate_edid_checksum_def)

lemma nth_checksum_126:
  "calculate_edid_checksum 0 edid ! 126 = edid ! 126"
  by (simp add: calculate_edid_checksum_def)

lemma edid_block0_take: "edid_block 0 edid = take 128 edid"
  by (simp add: edid_block_def)

lemma edid_block0_ext:
  "edid_block 0 (calculate_edid_checksum 128 ext) = take 128 ext"
  by (simp add: edid_block_def take_checksum_above)


lemma generate_edid_length: "length (generate_edid_for_resolution est w h r) = 256"
  using generate_edid_shape [of est w h r] by auto

lemma generate_edid_base_sum:
  "block_sum (edid_block 0 (generate_edid_for_resolution est w h r)) mod 256 = 0"
proof -
  obtain base ext where
    gen: "generate_edid_for_resolution est w h r =
            (if w > 1920 \<or> h > 1080 then calculate_edid_checksum 128 ext
             else calculate_edid_checksum 0 base)"
    and base: "length base = 256"
    and ext: "take 128 ext = take 128 (calculate_edid_checksum 0 base)"
    using generate_edid_shape [of est w h r] by blast
  have "edid_block 0 (generate_edid_for_resolution est w h r) =
          edid_block 0 (calculate_edid_checksum (128 * 0) base)"
    by (simp add: gen edid_block0_ext ext) (simp add: edid_block_def)
  moreover have "128 * 0 + 128 \<le> length base" using base by simp
  ultimately show ?thesis by (simp only: block_sum_checksum)
qed

lemma generate_edid_extension_sum:
  assumes "w > 1920 \<or> h > 1080"
  shows "block_sum (edid_block 1 (generate_edid_for_resolution est w h r)) mod 256 = 0"
proof -
  obtain base ext where
    gen: "generate_edid_for_resolution est w h r =
            (if w > 1920 \<or> h > 1080 then calculate_edid_checksum 128 ext
             else calculate_edid_checksum 0 base)"
    and ext: "length ext = 256"
    using generate_edid_shape [of est w h r] by blast
  have "128 * 1 + 128 \<le> length ext" using ext by simp
  from block_sum_checksum [OF this] show ?thesis using assms by (simp add: gen)
qed

lemma length_edid_block:
  "128 * n + 128 \<le> length edid \<Longrightarrow> length (edid_block n edid) = 128"
  by (simp add: edid_block_def)

text \<open>
  Claim C1. For every width, height and refresh rate (and whatever the floating-point
  estimate of the generic timing branch yields), each 128-byte block of the synthesized
  EDID sums to 0 modulo 256: the base block always, and the CEA extension block whenever
  \<open>width > 1920\<close> or \<open>height > 1080\<close>.
\<close>

theorem edid_blocks_checksum:
  "length (edid_block 0 (generate_edid_for_resolution est w h r)) = 128
   \<and> block_sum (edid_block 0 (generate_edid_for_resolution est w h r)) mod 256 = 0
   \<and> (w > 1920 \<or> h > 1080 \<longrightarrow>
        length (edid_block 1 (generate_edid_for_resolution est w h r)) = 128
        \<and> block_sum (edid_block 1 (generate_edid_for_resolution est w h r)) mod 256 = 0)"
proof (intro conjI impI)
  show "length (edid_block 0 (generate_edid_for_resolution est w h r)) = 128"
    by (rule length_edid_block) (simp add: generate_edid_length)
  show "length (edid_block 1 (generate_edid_for_resolution est w h r)) = 128"
    by (rule length_edid_block) (simp add: generate_edid_length)
  show "block_sum (edid_block 0 (generate_edid_for_resolution est w h r)) mod 256 = 0"
    by (rule generate_edid_base_sum)
  show "block_sum (edid_block 1 (generate_edid_for_resolution est w h r)) mod 256 = 0"
    if "w > 1920 \<or> h > 1080"
    using that by (rule generate_edid_extension_sum)
qed

text \<open>The extension block of the 3840x2160 descriptor.\<close>

theorem edid_blocks_checksum_witness:
  "((3840 :: u32) > 1920 \<or> (2160 :: u32) > 1080)
   \<and> block_sum (edid_block 1 (generate_edid_for_resolution (\<lambda>_ _ _. (0, 0)) 3840 2160 60)) mod 256 = 0"
  using edid_blocks_checksum [where est = "\<lambda>_ _ _. (0, 0)" and w = 3840 and h = 2160 and r = 60] by simp

section \<open>Creating displays and opening the driver\<close>

lemma registry_find_assign [simp]: "registry_find k (registry_assign k v reg) = Some v"
  by (induction reg) auto

lemma generate_display_name_nonempty: "generate_display_name guid \<noteq> []"
  by (simp add: generate_display_name_def)

lemma find_device_scan_no_release: "\<not> list_ex releases (snd (find_device_scan env slots))"
  by (induction slots) (auto simp: Let_def split: evdi_device_status.splits prod.splits)

lemma createVirtualDisplay_not_ready:
  "driver_status s \<noteq> OK \<Longrightarrow> createVirtualDisplay env s uid cname w h f guid = ([], s)"
  by (simp add: createVirtualDisplay_def)

lemma createVirtualDisplay_ready:
  assumes "driver_status s = OK"
  shows "\<exists>vdinfo evs.
           createVirtualDisplay env s uid cname w h f guid =
             (generate_display_name guid,
              s\<lparr>virtual_displays := registry_assign guid vdinfo (virtual_displays s),
                trace := trace s @ evs\<rparr>)
           \<and> name vdinfo = generate_display_name guid \<and> guid_str vdinfo = guid
           \<and> width vdinfo = w \<and> height vdinfo = h \<and> fps vdinfo = f \<and> active vdinfo
           \<and> record_ok vdinfo
           \<and> \<not> list_ex releases evs
           \<and> (\<not> evdi_available s \<longrightarrow>
                 evs = [] \<and>
                 vdinfo = \<lparr>name = generate_display_name guid, guid_str = guid, width = w,
                           height = h, fps = f, device_index = - 1, handle = 0, drm_fd = - 1,
                           active = True, using_evdi = False\<rparr>)"
proof (cases "evdi_available s")
  case False
  with assms show ?thesis
    by (simp add: createVirtualDisplay_def Let_def record_ok_def)
next
  case True
  obtain device devs where find: "find_available_evdi_device env = (device, devs)"
    by (cases "find_available_evdi_device env")
  have devs: "\<not> list_ex releases devs"
    using find_device_scan_no_release [of env "map int [0..<16]"] find
    by (simp add: find_available_evdi_device_def)
  show ?thesis
  proof (cases "device \<ge> 0 \<and> evdi_open env device \<noteq> 0")
    case hw: True
    let ?v = "\<lparr>name = generate_display_name guid, guid_str = guid, width = w, height = h,
               fps = f, device_index = device, handle = evdi_open env device,
               drm_fd = open_card env device, active = True, using_evdi = True\<rparr>"
    let ?e = "devs @ [EvdiOpen device,
                EvdiConnect (evdi_open env device)
                  (generate_edid_for_resolution (fp_cvt env) w h (f div 1000))
                  (if w > 1920 \<or> h > 1080 then 256 else 128),
                OpenCard device]"
    have "createVirtualDisplay env s uid cname w h f guid =
            (generate_display_name guid,
             s\<lparr>virtual_displays := registry_assign guid ?v (virtual_displays s),
               trace := trace s @ ?e\<rparr>)"
      using assms True find hw by (simp add: createVirtualDisplay_def Let_def)
    moreover have "record_ok ?v" using hw by (simp add: record_ok_def)
    moreover have "\<not> list_ex releases ?e" using devs by simp
    ultimately show ?thesis using True
      by (intro exI [of _ ?v] exI [of _ ?e]) simp
  next
    case False
    let ?v = "\<lparr>name = generate_display_name guid, guid_str = guid, width = w, height = h,
               fps = f, device_index = - 1, handle = 0, drm_fd = - 1, active = True,
               using_evdi = False\<rparr>"
    let ?e = "if device \<ge> 0 then devs @ [EvdiOpen device] else devs"
    have "createVirtualDisplay env s uid cname w h f guid =
            (generate_display_name guid,
             s\<lparr>virtual_displays := registry_assign guid ?v (virtual_displays s),
               trace := trace s @ ?e\<rparr>)"
      using assms True find False by (simp add: createVirtualDisplay_def Let_def)
    moreover have "record_ok ?v" by (simp add: record_ok_def)
    moreover have "\<not> list_ex releases ?e" using devs by simp
    ultimately show ?thesis using True
      by (intro exI [of _ ?v] exI [of _ ?e]) simp
  qed
qed

text \<open>
  Claim C3. \<open>createVirtualDisplay\<close> returns the empty string exactly when the driver
  state is not \<open>OK\<close>; when it is \<open>OK\<close>, the result is \<open>VIRTUAL-\<close> followed by the
  first 8 characters of the UUID string, and the registry holds, under the UUID string, a
  record with that name and that UUID string.
\<close>

theorem createVirtualDisplay_empty_iff_not_ready:
  "(fst (createVirtualDisplay env s uid cname w h f guid) = [] \<longleftrightarrow> driver_status s \<noteq> OK)
   \<and> (driver_status s = OK \<longrightarrow>
        fst (createVirtualDisplay env s uid cname w h f guid) = ''VIRTUAL-'' @ take 8 guid
        \<and> (\<exists>v. registry_find guid
                   (virtual_displays (snd (createVirtualDisplay env s uid cname w h f guid)))
                   = Some v
                 \<and> name v = ''VIRTUAL-'' @ take 8 guid \<and> guid_str v = guid))"
proof (cases "driver_status s = OK")
  case True
  from createVirtualDisplay_ready [OF True, of env uid cname w h f guid]
  show ?thesis using True by (auto simp: generate_display_name_def)
next
  case False
  then show ?thesis by (simp add: createVirtualDisplay_not_ready)
qed

text \<open>
  A creation on an opened driver, and one on a driver that was never opened.
\<close>

theorem createVirtualDisplay_empty_iff_not_ready_witness:
  "driver_status (initial_state\<lparr>driver_status := OK\<rparr>) = OK
   \<and> fst (createVirtualDisplay no_evdi (initial_state\<lparr>driver_status := OK\<rparr>) ''c1'' ''Test''
             1920 1080 60000 ''0a1b2c3d-0000-4000-8000-000000000001'') = ''VIRTUAL-0a1b2c3d''
   \<and> driver_status initial_state \<noteq> OK
   \<and> fst (createVirtualDisplay no_evdi initial_state ''c1'' ''Test''
             1920 1080 60000 ''0a1b2c3d-0000-4000-8000-000000000001'') = []"
  using createVirtualDisplay_empty_iff_not_ready
          [of no_evdi "initial_state\<lparr>driver_status := OK\<rparr>" "''c1''" "''Test''" 1920 1080 60000
              "''0a1b2c3d-0000-4000-8000-000000000001''"]
        createVirtualDisplay_empty_iff_not_ready
          [of no_evdi initial_state "''c1''" "''Test''" 1920 1080 60000
              "''0a1b2c3d-0000-4000-8000-000000000001''"]
  by (simp add: initial_state_def)

lemma openVDisplayDevice_ready: "driver_status s = OK \<Longrightarrow> openVDisplayDevice env s = (OK, s)"
  by (simp add: openVDisplayDevice_def)

lemma openVDisplayDevice_status:
  "fst (openVDisplayDevice env s) = OK \<and> driver_status (snd (openVDisplayDevice env s)) = OK"
  by (simp add: openVDisplayDevice_def Let_def split: prod.splits)

lemma load_evdi_library_fails:
  "\<not> loaded (evdi s) \<Longrightarrow> dlopen_result env = 0 \<or> \<not> dlsym_ok env \<Longrightarrow>
   \<not> fst (load_evdi_library env s)"
  by (auto simp: load_evdi_library_def)

text \<open>
  Claim C4. \<open>openVDisplayDevice\<close> returns \<open>OK\<close> and leaves the driver state \<open>OK\<close>,
  whatever the loader and the kernel answer; when the library does not load or the kernel
  module is absent, EVDI is marked unavailable (passthrough); and a call on a driver that
  is already \<open>OK\<close> returns \<open>OK\<close> with the state untouched, so nothing is loaded again.
\<close>

theorem openVDisplayDevice_always_ready:
  "fst (openVDisplayDevice env s) = OK
   \<and> driver_status (snd (openVDisplayDevice env s)) = OK
   \<and> (driver_status s \<noteq> OK
        \<and> (\<not> fst (load_evdi_library env s) \<or> \<not> check_evdi_module_loaded env)
      \<longrightarrow> \<not> evdi_available (snd (openVDisplayDevice env s)))
   \<and> (driver_status s = OK \<longrightarrow> openVDisplayDevice env s = (OK, s))
   \<and> openVDisplayDevice env' (snd (openVDisplayDevice env s)) =
       (OK, snd (openVDisplayDevice env s))"
proof (intro conjI impI)
  show "fst (openVDisplayDevice env s) = OK"
    and st: "driver_status (snd (openVDisplayDevice env s)) = OK"
    using openVDisplayDevice_status by blast+
  show "openVDisplayDevice env s = (OK, s)" if "driver_status s = OK"
    using that by (rule openVDisplayDevice_ready)
  show "openVDisplayDevice env' (snd (openVDisplayDevice env s)) =
          (OK, snd (openVDisplayDevice env s))"
    using st by (rule openVDisplayDevice_ready)
  show "\<not> evdi_available (snd (openVDisplayDevice env s))"
    if "driver_status s \<noteq> OK
        \<and> (\<not> fst (load_evdi_library env s) \<or> \<not> check_evdi_module_loaded env)"
    using that by (auto simp: openVDisplayDevice_def Let_def split: prod.splits)
qed

text \<open>
  Opening without an EVDI library, and opening again.
\<close>

theorem openVDisplayDevice_always_ready_witness:
  "driver_status initial_state \<noteq> OK
   \<and> \<not> fst (load_evdi_library no_evdi initial_state)
   \<and> fst (openVDisplayDevice no_evdi initial_state) = OK
   \<and> \<not> evdi_available (snd (openVDisplayDevice no_evdi initial_state))
   \<and> driver_status (snd (openVDisplayDevice no_evdi initial_state)) = OK
   \<and> openVDisplayDevice working_evdi (snd (openVDisplayDevice no_evdi initial_state)) =
       (OK, snd (openVDisplayDevice no_evdi initial_state))"
proof -
  have "driver_status initial_state \<noteq> OK" "\<not> fst (load_evdi_library no_evdi initial_state)"
    by (simp_all add: initial_state_def load_evdi_library_def no_evdi_def)
  then show ?thesis
    using openVDisplayDevice_always_ready [of no_evdi initial_state working_evdi]
          openVDisplayDevice_always_ready
            [of working_evdi "snd (openVDisplayDevice no_evdi initial_state)" working_evdi]
    by simp
qed

text \<open>
  Claim C5. With the driver \<open>OK\<close> and EVDI unavailable, \<open>createVirtualDisplay\<close> returns a
  non-empty name and stores a record with \<open>using_evdi\<close> false, a null handle, device
  index -1 and \<open>drm_fd\<close> -1; it makes no call to the outside: no device node is opened.
\<close>

theorem createVirtualDisplay_passthrough:
  assumes "driver_status s = OK" and "\<not> evdi_available s"
  shows "fst (createVirtualDisplay env s uid cname w h f guid) \<noteq> []
         \<and> registry_find guid
              (virtual_displays (snd (createVirtualDisplay env s uid cname w h f guid))) =
             Some \<lparr>name = fst (createVirtualDisplay env s uid cname w h f guid),
                   guid_str = guid, width = w, height = h, fps = f, device_index = - 1,
                   handle = 0, drm_fd = - 1, active = True, using_evdi = False\<rparr>
         \<and> trace (snd (createVirtualDisplay env s uid cname w h f guid)) = trace s"
  using createVirtualDisplay_ready [OF assms(1), of env uid cname w h f guid] assms(2)
  by (auto simp: generate_display_name_def)

text \<open>
  A creation after an open that found no EVDI library.
\<close>

theorem createVirtualDisplay_passthrough_witness:
  "driver_status (snd (openVDisplayDevice no_evdi initial_state)) = OK
   \<and> \<not> evdi_available (snd (openVDisplayDevice no_evdi initial_state))
   \<and> fst (createVirtualDisplay no_evdi (snd (openVDisplayDevice no_evdi initial_state))
             ''c1'' ''Test'' 1920 1080 60000 ''0a1b2c3d-0000-4000-8000-000000000001'') \<noteq> []
   \<and> trace (snd (createVirtualDisplay no_evdi (snd (openVDisplayDevice no_evdi initial_state))
             ''c1'' ''Test'' 1920 1080 60000 ''0a1b2c3d-0000-4000-8000-000000000001'')) = []"
proof -
  let ?s = "snd (openVDisplayDevice no_evdi initial_state)"
  have s: "driver_status ?s = OK" "\<not> evdi_available ?s" "trace ?s = []"
    by (simp_all add: openVDisplayDevice_def load_evdi_library_def check_evdi_module_loaded_def
          initial_state_def no_evdi_def Let_def)
  from createVirtualDisplay_passthrough [OF s(1) s(2), of no_evdi "''c1''" "''Test''" 1920 1080 60000
        "''0a1b2c3d-0000-4000-8000-000000000001''"] s
  show ?thesis by simp
qed

section \<open>Reconfiguration under an unknown name\<close>

lemma reconfigure_scan_unknown:
  "deviceName \<notin> set (map (name \<circ> snd) reg) \<Longrightarrow>
   reconfigure_scan est deviceName w h r rhz reg = None"
  by (induction reg) auto

text \<open>
  Claim C6. For a display name that no record of the registry carries,
  \<open>changeDisplaySettings\<close> returns 0 and leaves the whole state, the registry included,
  as it was.
\<close>

theorem changeDisplaySettings_unknown_name:
  assumes "deviceName \<notin> set (map (name \<circ> snd) (virtual_displays s))"
  shows "changeDisplaySettings env s deviceName w h refresh_rate = (0, s)"
  using reconfigure_scan_unknown [OF assms] by (simp add: changeDisplaySettings_def)

text \<open>
  A registry with one display, reconfigured under another name.
\<close>

theorem changeDisplaySettings_unknown_name_witness:
  "''nonexistent'' \<notin> set (map (name \<circ> snd) (virtual_displays
        (initial_state\<lparr>virtual_displays := [(''0a1b2c3d-0000-4000-8000-000000000001'', hw_display)]\<rparr>)))
   \<and> changeDisplaySettings working_evdi
        (initial_state\<lparr>virtual_displays := [(''0a1b2c3d-0000-4000-8000-000000000001'', hw_display)]\<rparr>)
        ''nonexistent'' 2560 1440 60000
      = (0, initial_state\<lparr>virtual_displays := [(''0a1b2c3d-0000-4000-8000-000000000001'', hw_display)]\<rparr>)"
proof -
  have "''nonexistent'' \<notin> set (map (name \<circ> snd) (virtual_displays
        (initial_state\<lparr>virtual_displays := [(''0a1b2c3d-0000-4000-8000-000000000001'', hw_display)]\<rparr>)))"
    by (simp add: hw_display_def)
  from this changeDisplaySettings_unknown_name [OF this, of working_evdi 2560 1440 60000]
  show ?thesis by simp
qed

section \<open>The watchdog thread\<close>

lemma watchdog_scan_iff:
  "watchdog_scan ready reg \<longleftrightarrow>
     (\<exists>(guid, v) \<in> set reg. active v \<and> using_evdi v \<and> handle v \<noteq> 0 \<and> ready (handle v) < 0)"
  by (induction reg) (auto split: if_splits)

lemma watchdog_body_calls: "snd (watchdog_body failCb obs) \<le> 1"
  by (induction obs) (auto split: callback.splits)

lemma watchdog_body_lost:
  assumes "i < length obs"
    and "\<forall>j\<le>i. running_at_loop_test (obs ! j) \<and> running_after_sleep (obs ! j)"
    and "watchdog_scan (event_ready (obs ! i)) (displays (obs ! i))"
  shows "watchdog_body failCb obs =
           (case failCb of EMPTY \<Rightarrow> (LOST, 0) | RETURNS \<Rightarrow> (LOST, 1) | BLOCKS \<Rightarrow> (IN_CALLBACK, 1))"
  using assms
proof (induction obs arbitrary: i)
  case Nil
  then show ?case by simp
next
  case (Cons ob obs)
  from Cons.prems(2) have run: "running_at_loop_test ob" "running_after_sleep ob"
    by force+
  show ?case
  proof (cases "watchdog_scan (event_ready ob) (displays ob)")
    case True
    with run show ?thesis by simp
  next
    case False
    with Cons.prems(3) obtain k where i: "i = Suc k" by (cases i) auto
    have "k < length obs" using Cons.prems(1) i by simp
    moreover have "\<forall>j\<le>k. running_at_loop_test (obs ! j) \<and> running_after_sleep (obs ! j)"
    proof (intro allI impI)
      fix j assume "j \<le> k"
      then have "Suc j \<le> i" using i by simp
      with Cons.prems(2) show "running_at_loop_test (obs ! j) \<and> running_after_sleep (obs ! j)"
        by fastforce
    qed
    moreover have "watchdog_scan (event_ready (obs ! k)) (displays (obs ! k))"
      using Cons.prems(3) i by simp
    ultimately have "watchdog_body failCb obs =
           (case failCb of EMPTY \<Rightarrow> (LOST, 0) | RETURNS \<Rightarrow> (LOST, 1) | BLOCKS \<Rightarrow> (IN_CALLBACK, 1))"
      by (rule Cons.IH)
    with run False show ?thesis by simp
  qed
qed

text \<open>
  Claim C7, as stated, fails on the code in two ways. In a round where the flag is set and
  the record \<open>hw_display\<close> (active, EVDI-backed, with a handle) answers the liveness query
  with -1, an empty \<open>std::function\<close> is not called at all, since the lambda guards the
  call with \<open>if (failCb)\<close>; and a callback that does not return, as one that calls
  \<open>closeVDisplayDevice\<close> while the lambda holds the mutex, is entered once and the
  thread does not terminate.
\<close>

theorem watchdog_failure_counterexample:
  "running_at_loop_test failing_round \<and> running_after_sleep failing_round
   \<and> (''0a1b2c3d-0000-4000-8000-000000000001'', hw_display) \<in> set (displays failing_round)
   \<and> active hw_display \<and> using_evdi hw_display \<and> handle hw_display \<noteq> 0
   \<and> event_ready failing_round (handle hw_display) < 0
   \<and> watchdog_body EMPTY [failing_round] = (LOST, 0)
   \<and> watchdog_body BLOCKS [failing_round] = (IN_CALLBACK, 1)
   \<and> \<not> terminated (fst (watchdog_body BLOCKS [failing_round]))"
  by (simp add: failing_round_def healthy_round_def hw_display_def terminated_def)

text \<open>
  Claim C7, amended. The watchdog lambda calls the failure callback at most once in a
  run. In a run where the thread, with the running flag still set, reaches a round in
  which some active EVDI-backed record with a handle answers the liveness query with a
  negative number, a non-empty callback has been called exactly once and an empty one
  not at all; and when the callback is empty or returns, the lambda returns: the thread
  terminates.
\<close>

theorem watchdog_failure_single_shot:
  "snd (watchdog_body failCb obs) \<le> 1
   \<and> (i < length obs
        \<and> (\<forall>j\<le>i. running_at_loop_test (obs ! j) \<and> running_after_sleep (obs ! j))
        \<and> (\<exists>(guid, v) \<in> set (displays (obs ! i)).
              active v \<and> using_evdi v \<and> handle v \<noteq> 0 \<and> event_ready (obs ! i) (handle v) < 0)
      \<longrightarrow> snd (watchdog_body failCb obs) = (if failCb = EMPTY then 0 else 1)
          \<and> (failCb \<noteq> BLOCKS \<longrightarrow>
                fst (watchdog_body failCb obs) = LOST
                \<and> terminated (fst (watchdog_body failCb obs))))"
proof (intro conjI impI)
  show "snd (watchdog_body failCb obs) \<le> 1" by (rule watchdog_body_calls)
next
  assume h: "i < length obs
        \<and> (\<forall>j\<le>i. running_at_loop_test (obs ! j) \<and> running_after_sleep (obs ! j))
        \<and> (\<exists>(guid, v) \<in> set (displays (obs ! i)).
              active v \<and> using_evdi v \<and> handle v \<noteq> 0 \<and> event_ready (obs ! i) (handle v) < 0)"
  then have "watchdog_scan (event_ready (obs ! i)) (displays (obs ! i))"
    by (simp only: watchdog_scan_iff)
  with h have body: "watchdog_body failCb obs =
           (case failCb of EMPTY \<Rightarrow> (LOST, 0) | RETURNS \<Rightarrow> (LOST, 1) | BLOCKS \<Rightarrow> (IN_CALLBACK, 1))"
    by (intro watchdog_body_lost [of i]) simp_all
  show "snd (watchdog_body failCb obs) = (if failCb = EMPTY then 0 else 1)"
    by (simp add: body split: callback.splits)
  show "fst (watchdog_body failCb obs) = LOST" if "failCb \<noteq> BLOCKS"
    using that by (simp add: body split: callback.splits)
  show "terminated (fst (watchdog_body failCb obs))" if "failCb \<noteq> BLOCKS"
    using that by (simp add: body terminated_def split: callback.splits)
qed

text \<open>
  A healthy round followed by a round in which the device is lost, with a callback that
  returns.
\<close>

theorem watchdog_failure_single_shot_witness:
  "(1 :: nat) < length [healthy_round, failing_round, healthy_round]
   \<and> running_at_loop_test ([healthy_round, failing_round, healthy_round] ! 0)
   \<and> running_after_sleep ([healthy_round, failing_round, healthy_round] ! 0)
   \<and> running_at_loop_test ([healthy_round, failing_round, healthy_round] ! 1)
   \<and> running_after_sleep ([healthy_round, failing_round, healthy_round] ! 1)
   \<and> (\<exists>(guid, v) \<in> set (displays ([healthy_round, failing_round, healthy_round] ! 1)).
         active v \<and> using_evdi v \<and> handle v \<noteq> 0
         \<and> event_ready ([healthy_round, failing_round, healthy_round] ! 1) (handle v) < 0)
   \<and> RETURNS \<noteq> BLOCKS
   \<and> snd (watchdog_body RETURNS [healthy_round, failing_round, healthy_round]) = 1
   \<and> fst (watchdog_body RETURNS [healthy_round, failing_round, healthy_round]) = LOST
   \<and> terminated (fst (watchdog_body RETURNS [healthy_round, failing_round, healthy_round]))"
proof -
  have a: "(1 :: nat) < length [healthy_round, failing_round, healthy_round]" by simp
  have b: "\<forall>j\<le>1. running_at_loop_test ([healthy_round, failing_round, healthy_round] ! j)
             \<and> running_after_sleep ([healthy_round, failing_round, healthy_round] ! j)"
    by (simp add: le_Suc_eq healthy_round_def failing_round_def)
  have c: "\<exists>(guid, v) \<in> set (displays ([healthy_round, failing_round, healthy_round] ! 1)).
         active v \<and> using_evdi v \<and> handle v \<noteq> 0
         \<and> event_ready ([healthy_round, failing_round, healthy_round] ! 1) (handle v) < 0"
    by (simp add: healthy_round_def failing_round_def hw_display_def)
  have d: "snd (watchdog_body RETURNS [healthy_round, failing_round, healthy_round]) = 1
     \<and> fst (watchdog_body RETURNS [healthy_round, failing_round, healthy_round]) = LOST
     \<and> terminated (fst (watchdog_body RETURNS [healthy_round, failing_round, healthy_round]))"
  proof -
    from a b c
      watchdog_failure_single_shot [of RETURNS "[healthy_round, failing_round, healthy_round]" 1]
    have "snd (watchdog_body RETURNS [healthy_round, failing_round, healthy_round])
            = (if RETURNS = EMPTY then 0 else 1)
          \<and> (RETURNS \<noteq> BLOCKS \<longrightarrow>
                fst (watchdog_body RETURNS [healthy_round, failing_round, healthy_round]) = LOST
                \<and> terminated
                     (fst (watchdog_body RETURNS [healthy_round, failing_round, healthy_round])))"
      by blast
    then show ?thesis by (simp del: watchdog_body.simps add: terminated_def)
  qed
  have "running_at_loop_test ([healthy_round, failing_round, healthy_round] ! 0)"
    "running_after_sleep ([healthy_round, failing_round, healthy_round] ! 0)"
    "running_at_loop_test ([healthy_round, failing_round, healthy_round] ! 1)"
    "running_after_sleep ([healthy_round, failing_round, healthy_round] ! 1)"
    by (simp_all add: healthy_round_def failing_round_def)
  with a c d show ?thesis by blast
qed

section \<open>The invariant of the records\<close>

lemma list_all_registry_assign:
  "list_all P reg \<Longrightarrow> P (k, v) \<Longrightarrow> list_all P (registry_assign k v reg)"
  by (induction reg) auto

lemma list_all_registry_erase: "list_all P reg \<Longrightarrow> list_all P (registry_erase k reg)"
  by (induction reg) auto

lemma reconfigure_scan_record_ok:
  "list_all (\<lambda>(guid, v). record_ok v) reg \<Longrightarrow>
   reconfigure_scan est dn w h r rhz reg = Some (reg', evs) \<Longrightarrow>
   list_all (\<lambda>(guid, v). record_ok v) reg'"
  by (induction reg arbitrary: reg' evs)
     (auto simp: record_ok_def split: if_splits option.splits)

lemma openVDisplayDevice_displays [simp]:
  "virtual_displays (snd (openVDisplayDevice env s)) = virtual_displays s"
  by (simp add: openVDisplayDevice_def load_evdi_library_def Let_def split: prod.splits)

lemma closeVDisplayDevice_displays [simp]:
  "virtual_displays (closeVDisplayDevice s) = []"
  by (simp add: closeVDisplayDevice_def unload_evdi_library_def Let_def)

lemma watchdog_round_displays:
  "watchdog_round env s = Some s' \<Longrightarrow> virtual_displays s' = virtual_displays s"
  by (auto simp: watchdog_round_def
           split: thread_state.splits callback.splits thread_progress.splits if_splits)

lemma startPingThread_displays:
  "startPingThread s cb = Some (b, s') \<Longrightarrow> virtual_displays s' = virtual_displays s"
  by (auto simp: startPingThread_def split: if_splits)

lemma createVirtualDisplay_record_ok:
  "registry_invariant s \<Longrightarrow>
   registry_invariant (snd (createVirtualDisplay env s uid cname w h f guid))"
proof (cases "driver_status s = OK")
  case True
  assume "registry_invariant s"
  with createVirtualDisplay_ready [OF True, of env uid cname w h f guid]
  show ?thesis by (auto simp: registry_invariant_def intro: list_all_registry_assign)
next
  case False
  assume "registry_invariant s"
  with False show ?thesis by (simp add: createVirtualDisplay_not_ready)
qed

lemma removeVirtualDisplay_record_ok:
  "registry_invariant s \<Longrightarrow> registry_invariant (snd (removeVirtualDisplay s guid))"
  by (simp add: removeVirtualDisplay_def registry_invariant_def list_all_registry_erase
           split: option.splits)

lemma changeDisplaySettings_record_ok:
  "registry_invariant s \<Longrightarrow> registry_invariant (snd (changeDisplaySettings env s dn w h r))"
  by (auto simp: changeDisplaySettings_def registry_invariant_def Let_def
           split: option.splits dest: reconfigure_scan_record_ok)

lemma perform_record_ok:
  assumes "registry_invariant s" and "perform a s = Some s'"
  shows "registry_invariant s'"
proof (cases a)
  case (StartPing cb)
  with assms show ?thesis
    by (auto simp: registry_invariant_def dest: startPingThread_displays)
next
  case (CreateDisplay env uid cname w h f guid)
  with assms createVirtualDisplay_record_ok show ?thesis by auto
next
  case (RemoveDisplay guid)
  with assms removeVirtualDisplay_record_ok show ?thesis by auto
next
  case (ChangeSettings env dn w h r)
  with assms changeDisplaySettings_record_ok show ?thesis by auto
next
  case (ChangeSettings2 env dn w h r isolated)
  with assms changeDisplaySettings_record_ok show ?thesis
    by (auto simp: changeDisplaySettings2_def)
next
  case (WatchdogRound env)
  with assms show ?thesis
    by (auto simp: registry_invariant_def dest: watchdog_round_displays)
qed (use assms in \<open>auto simp: registry_invariant_def setRenderAdapterByName_def\<close>)

lemma perform_all_record_ok:
  "registry_invariant s \<Longrightarrow> perform_all ops s = Some s' \<Longrightarrow> registry_invariant s'"
  by (induction ops arbitrary: s) (auto split: option.splits dest: perform_record_ok)

text \<open>
  Claim C8. Every operation preserves the invariant of the registry: a record with
  \<open>using_evdi\<close> set has a non-null handle and a non-negative device index, and a record
  without it has a null handle and device index -1. The invariant holds initially, hence
  in every state that a sequence of operations reaches.
\<close>

theorem registry_invariant_preserved:
  "(registry_invariant s \<and> perform a s = Some s' \<longrightarrow> registry_invariant s')
   \<and> (perform_all ops initial_state = Some s'' \<longrightarrow> registry_invariant s'')"
proof (intro conjI impI)
  show "registry_invariant s'" if "registry_invariant s \<and> perform a s = Some s'"
    using that perform_record_ok by blast
  have "registry_invariant initial_state"
    by (simp add: registry_invariant_def initial_state_def)
  then show "registry_invariant s''" if "perform_all ops initial_state = Some s''"
    using that by (rule perform_all_record_ok)
qed

theorem registry_invariant_preserved_witness:
  "registry_invariant one_display
   \<and> perform (CreateDisplay working_evdi ''c2'' ''Other'' 2560 1440 60000
                ''7e57ab1e-0000-4000-8000-000000000002'') one_display
       = Some (snd (createVirtualDisplay working_evdi one_display ''c2'' ''Other'' 2560 1440 60000
                ''7e57ab1e-0000-4000-8000-000000000002''))
   \<and> registry_invariant
        (snd (createVirtualDisplay working_evdi one_display ''c2'' ''Other'' 2560 1440 60000
                ''7e57ab1e-0000-4000-8000-000000000002''))
   \<and> perform_all [OpenDriver working_evdi] initial_state
       = Some (snd (openVDisplayDevice working_evdi initial_state))
   \<and> registry_invariant (snd (openVDisplayDevice working_evdi initial_state))"
proof -
  have "registry_invariant one_display"
    by (simp add: registry_invariant_def one_display_def record_ok_def hw_display_def)
  moreover have "perform (CreateDisplay working_evdi ''c2'' ''Other'' 2560 1440 60000
                ''7e57ab1e-0000-4000-8000-000000000002'') one_display
       = Some (snd (createVirtualDisplay working_evdi one_display ''c2'' ''Other'' 2560 1440 60000
                ''7e57ab1e-0000-4000-8000-000000000002''))"
    by simp
  moreover have "perform_all [OpenDriver working_evdi] initial_state
       = Some (snd (openVDisplayDevice working_evdi initial_state))"
    by simp
  ultimately show ?thesis
    using registry_invariant_preserved
            [of one_display
                "CreateDisplay working_evdi ''c2'' ''Other'' 2560 1440 60000
                   ''7e57ab1e-0000-4000-8000-000000000002''"
                "snd (createVirtualDisplay working_evdi one_display ''c2'' ''Other'' 2560 1440 60000
                   ''7e57ab1e-0000-4000-8000-000000000002'')"
                "[OpenDriver working_evdi]"
                "snd (openVDisplayDevice working_evdi initial_state)"]
    by blast
qed

section \<open>The watchdog after a lost device\<close>

lemma watchdog_round_lost:
  assumes "watchdog_thread s = EXECUTING failCb" and "failCb \<noteq> BLOCKS"
    and "watchdog_running s"
    and "watchdog_scan (get_event_ready env) (virtual_displays s)"
  shows "watchdog_round env s =
           Some (s\<lparr>watchdog_thread := RETURNED,
                   trace := trace s @ (if failCb = RETURNS then [FailCb] else [])\<rparr>)"
  using assms by (cases failCb) (simp_all add: watchdog_round_def)

lemma watchdog_round_blocks:
  assumes "watchdog_thread s = EXECUTING BLOCKS" and "watchdog_running s"
    and "watchdog_scan (get_event_ready env) (virtual_displays s)"
  shows "watchdog_round env s = None"
  using assms by (simp add: watchdog_round_def)

lemma watchdog_round_returned:
  "watchdog_thread s = RETURNED \<Longrightarrow> watchdog_round env s = Some s"
  by (simp add: watchdog_round_def)

lemma startPingThread_running:
  "watchdog_running s \<Longrightarrow> startPingThread s failCb = Some (True, s)"
  by (simp add: startPingThread_def)

lemma openVDisplayDevice_watchdog [simp]:
  "watchdog_running (snd (openVDisplayDevice env s)) = watchdog_running s"
  "watchdog_thread (snd (openVDisplayDevice env s)) = watchdog_thread s"
  by (simp_all add: openVDisplayDevice_def load_evdi_library_def Let_def split: prod.splits)

lemma createVirtualDisplay_watchdog [simp]:
  "watchdog_running (snd (createVirtualDisplay env s uid cname w h f guid)) = watchdog_running s"
  "watchdog_thread (snd (createVirtualDisplay env s uid cname w h f guid)) = watchdog_thread s"
proof -
  have "watchdog_running (snd (createVirtualDisplay env s uid cname w h f guid)) = watchdog_running s
      \<and> watchdog_thread (snd (createVirtualDisplay env s uid cname w h f guid)) = watchdog_thread s"
  proof (cases "driver_status s = OK")
    case True
    from createVirtualDisplay_ready [OF True, of env uid cname w h f guid]
    show ?thesis by auto
  next
    case False
    then show ?thesis by (simp add: createVirtualDisplay_not_ready)
  qed
  then show
    "watchdog_running (snd (createVirtualDisplay env s uid cname w h f guid)) = watchdog_running s"
    "watchdog_thread (snd (createVirtualDisplay env s uid cname w h f guid)) = watchdog_thread s"
    by simp_all
qed

lemma removeVirtualDisplay_watchdog [simp]:
  "watchdog_running (snd (removeVirtualDisplay s guid)) = watchdog_running s"
  "watchdog_thread (snd (removeVirtualDisplay s guid)) = watchdog_thread s"
  by (simp_all add: removeVirtualDisplay_def split: option.splits)

lemma changeDisplaySettings_watchdog [simp]:
  "watchdog_running (snd (changeDisplaySettings env s dn w h r)) = watchdog_running s"
  "watchdog_thread (snd (changeDisplaySettings env s dn w h r)) = watchdog_thread s"
  by (simp_all add: changeDisplaySettings_def Let_def split: option.splits)

lemma perform_after_loss:
  assumes "watchdog_running s" and "watchdog_thread s = RETURNED" and "a \<noteq> CloseDriver"
  shows "\<exists>s'. perform a s = Some s' \<and> watchdog_running s' \<and> watchdog_thread s' = RETURNED"
  using assms
  by (cases a)
     (simp_all add: startPingThread_running watchdog_round_returned setRenderAdapterByName_def
        changeDisplaySettings2_def)

lemma perform_all_after_loss:
  assumes "watchdog_running s" and "watchdog_thread s = RETURNED" and "CloseDriver \<notin> set ops"
  shows "\<exists>s'. perform_all ops s = Some s' \<and> watchdog_running s' \<and> watchdog_thread s' = RETURNED"
  using assms
proof (induction ops arbitrary: s)
  case Nil
  then show ?case by simp
next
  case (Cons a ops)
  then obtain s1 where s1: "perform a s = Some s1" "watchdog_running s1" "watchdog_thread s1 = RETURNED"
    using perform_after_loss [of s a] by auto
  with Cons.IH [of s1] Cons.prems(3) show ?case by simp
qed

lemma closeVDisplayDevice_watchdog:
  "\<not> watchdog_running (closeVDisplayDevice s)"
  "watchdog_thread (closeVDisplayDevice s) = NOT_JOINABLE"
  by (simp_all add: closeVDisplayDevice_def unload_evdi_library_def Let_def)

text \<open>
  Claim C9. When the watchdog thread ends on the failure path (the flag was set, a
  liveness query answered negative, and the callback, if any, returned),
  \<open>watchdog_running\<close> is still true. From then on, and through any operations other than
  \<open>closeVDisplayDevice\<close>, \<open>startPingThread\<close> returns true and changes nothing, the
  thread stays returned and a further round of it does nothing; \<open>closeVDisplayDevice\<close>
  resets the flag, after which \<open>startPingThread\<close> starts a thread again.
\<close>

theorem watchdog_not_restarted_after_loss:
  assumes "watchdog_thread s = EXECUTING cb" and "cb \<noteq> BLOCKS" and "watchdog_running s"
    and "watchdog_scan (get_event_ready env) (virtual_displays s)"
    and "CloseDriver \<notin> set ops"
  shows "\<exists>s0. watchdog_round env s = Some s0
           \<and> watchdog_running s0
           \<and> watchdog_thread s0 = RETURNED
           \<and> (\<exists>s'. perform_all ops s0 = Some s'
                \<and> watchdog_running s' \<and> watchdog_thread s' = RETURNED
                \<and> startPingThread s' failCb = Some (True, s')
                \<and> watchdog_round env' s' = Some s'
                \<and> \<not> watchdog_running (closeVDisplayDevice s')
                \<and> (\<exists>s''. startPingThread (closeVDisplayDevice s') failCb = Some (True, s'')
                         \<and> watchdog_thread s'' = EXECUTING failCb))"
proof -
  obtain s0 where s0: "watchdog_round env s = Some s0" "watchdog_running s0"
      "watchdog_thread s0 = RETURNED"
    using assms(1-4) by (simp add: watchdog_round_lost)
  from perform_all_after_loss [OF s0(2,3) assms(5)] obtain s' where
    s': "perform_all ops s0 = Some s'" "watchdog_running s'"
        "watchdog_thread s' = RETURNED"
    by blast
  have "startPingThread s' failCb = Some (True, s')"
    using s'(2) by (rule startPingThread_running)
  moreover have "watchdog_round env' s' = Some s'"
    using s'(3) by (rule watchdog_round_returned)
  moreover have "\<exists>s''. startPingThread (closeVDisplayDevice s') failCb = Some (True, s'')
                   \<and> watchdog_thread s'' = EXECUTING failCb"
    by (simp add: startPingThread_def closeVDisplayDevice_watchdog)
  ultimately show ?thesis using s0 s' closeVDisplayDevice_watchdog(1) by blast
qed

theorem watchdog_not_restarted_after_loss_witness:
  "watchdog_thread one_display = EXECUTING RETURNS \<and> RETURNS \<noteq> BLOCKS
   \<and> watchdog_running one_display
   \<and> watchdog_scan (get_event_ready lost_evdi) (virtual_displays one_display)
   \<and> CloseDriver \<notin> set [StartPing RETURNS, WatchdogRound lost_evdi,
                           RemoveDisplay ''0a1b2c3d-0000-4000-8000-000000000001'']
   \<and> (\<exists>s0. watchdog_round lost_evdi one_display = Some s0
          \<and> watchdog_running s0 \<and> watchdog_thread s0 = RETURNED
          \<and> (\<exists>s'. perform_all [StartPing RETURNS, WatchdogRound lost_evdi,
                                 RemoveDisplay ''0a1b2c3d-0000-4000-8000-000000000001''] s0
                       = Some s'
                   \<and> startPingThread s' EMPTY = Some (True, s')))"
proof -
  have h: "watchdog_thread one_display = EXECUTING RETURNS" "RETURNS \<noteq> BLOCKS"
      "watchdog_running one_display"
      "watchdog_scan (get_event_ready lost_evdi) (virtual_displays one_display)"
      "CloseDriver \<notin> set [StartPing RETURNS, WatchdogRound lost_evdi,
                            RemoveDisplay ''0a1b2c3d-0000-4000-8000-000000000001'']"
    by (simp_all add: one_display_def lost_evdi_def hw_display_def)
  from watchdog_not_restarted_after_loss [OF h, of EMPTY lost_evdi] h
  show ?thesis by blast
qed

section \<open>Creating a display twice\<close>

lemma registry_find_key: "registry_find k reg = Some v \<Longrightarrow> k \<in> set (map fst reg)"
  by (induction reg) (auto split: if_splits)

lemma registry_assign_keys:
  "registry_wf reg \<Longrightarrow> registry_find k reg = Some old \<Longrightarrow>
   map fst (registry_assign k v reg) = map fst reg"
proof (induction reg)
  case Nil
  then show ?case by simp
next
  case (Cons e reg)
  obtain k' v' where e: "e = (k', v')" by (cases e)
  show ?case
  proof (cases "k = k'")
    case True
    then show ?thesis by (simp add: e)
  next
    case False
    with Cons.prems(2) e have f: "registry_find k reg = Some old" by simp
    then have "k \<in> set (map fst reg)" by (rule registry_find_key)
    with Cons.prems(1) e have "k' < k" by (auto simp: registry_wf_def)
    then have "\<not> k < k'" by simp
    moreover have "registry_wf reg" using Cons.prems(1) by (simp add: registry_wf_def)
    ultimately show ?thesis using False f Cons.IH by (simp add: e)
  qed
qed

lemma registry_wf_distinct: "registry_wf reg \<Longrightarrow> distinct (map fst reg)"
  by (simp add: registry_wf_def strict_sorted_iff)

lemma filter_key_once:
  "distinct (map fst reg) \<Longrightarrow> k \<in> set (map fst reg) \<Longrightarrow>
   length (filter (\<lambda>(k', v). k' = k) reg) = 1"
proof (induction reg)
  case Nil
  then show ?case by simp
next
  case (Cons e reg)
  obtain k' v' where e: "e = (k', v')" by (cases e)
  show ?case
  proof (cases "k' = k")
    case True
    with Cons.prems(1) e have "k \<notin> fst ` set reg" by simp
    then have "filter (\<lambda>(k', v). k' = k) reg = []"
      by (force simp: filter_empty_conv)
    with True e show ?thesis by simp
  next
    case False
    with Cons e show ?thesis by simp
  qed
qed

text \<open>
  Claim C10. With the driver \<open>OK\<close>, \<open>createVirtualDisplay\<close> for a UUID string that is
  already a key of the registry succeeds and replaces the record: the registry keeps its
  keys and its size, holds exactly one record under that key, and that record has the new
  geometry and name; the call disconnects or closes nothing, in particular not the handle
  and not the descriptor of the record it replaced.
\<close>

theorem createVirtualDisplay_replaces_existing:
  assumes "driver_status s = OK" and "registry_wf (virtual_displays s)"
    and "registry_find guid (virtual_displays s) = Some old"
  shows "fst (createVirtualDisplay env s uid cname w h f guid) = generate_display_name guid
     \<and> fst (createVirtualDisplay env s uid cname w h f guid) \<noteq> []
     \<and> map fst (virtual_displays (snd (createVirtualDisplay env s uid cname w h f guid)))
         = map fst (virtual_displays s)
     \<and> length (virtual_displays (snd (createVirtualDisplay env s uid cname w h f guid)))
         = length (virtual_displays s)
     \<and> length (filter (\<lambda>(k, v). k = guid)
           (virtual_displays (snd (createVirtualDisplay env s uid cname w h f guid)))) = 1
     \<and> (\<exists>v. registry_find guid
                 (virtual_displays (snd (createVirtualDisplay env s uid cname w h f guid)))
                = Some v
              \<and> width v = w \<and> height v = h \<and> fps v = f
              \<and> name v = generate_display_name guid)
     \<and> \<not> list_ex releases (emitted s (snd (createVirtualDisplay env s uid cname w h f guid)))
     \<and> EvdiDisconnect (handle old)
          \<notin> set (emitted s (snd (createVirtualDisplay env s uid cname w h f guid)))
     \<and> EvdiClose (handle old)
          \<notin> set (emitted s (snd (createVirtualDisplay env s uid cname w h f guid)))
     \<and> CloseFd (drm_fd old)
          \<notin> set (emitted s (snd (createVirtualDisplay env s uid cname w h f guid)))"
proof -
  obtain vdinfo evs where
    eq: "createVirtualDisplay env s uid cname w h f guid =
           (generate_display_name guid,
            s\<lparr>virtual_displays := registry_assign guid vdinfo (virtual_displays s),
              trace := trace s @ evs\<rparr>)"
    and v: "name vdinfo = generate_display_name guid" "width vdinfo = w" "height vdinfo = h"
           "fps vdinfo = f"
    and evs: "\<not> list_ex releases evs"
    using createVirtualDisplay_ready [OF assms(1), of env uid cname w h f guid] by blast
  let ?reg = "registry_assign guid vdinfo (virtual_displays s)"
  have keys: "map fst ?reg = map fst (virtual_displays s)"
    using assms(2,3) by (rule registry_assign_keys)
  have len: "length ?reg = length (virtual_displays s)"
    using keys by (metis length_map)
  have "distinct (map fst ?reg)"
    using keys registry_wf_distinct [OF assms(2)] by simp
  moreover have "guid \<in> set (map fst ?reg)"
    using keys registry_find_key [OF assms(3)] by simp
  ultimately have once: "length (filter (\<lambda>(k, v). k = guid) ?reg) = 1"
    by (rule filter_key_once)
  have em: "emitted s (snd (createVirtualDisplay env s uid cname w h f guid)) = evs"
    by (simp add: eq emitted_def)
  have rel: "e \<notin> set evs" if "releases e" for e
    using evs that by (auto simp: list_ex_iff)
  show ?thesis
    using keys len once v evs rel [of "EvdiDisconnect (handle old)"]
      rel [of "EvdiClose (handle old)"] rel [of "CloseFd (drm_fd old)"]
    by (simp add: em) (simp add: eq generate_display_name_nonempty)
qed

theorem createVirtualDisplay_replaces_existing_witness:
  "driver_status one_display = OK \<and> registry_wf (virtual_displays one_display)
   \<and> registry_find ''0a1b2c3d-0000-4000-8000-000000000001'' (virtual_displays one_display)
       = Some hw_display
   \<and> length (virtual_displays (snd (createVirtualDisplay working_evdi one_display ''c1'' ''Test''
         2560 1440 60000 ''0a1b2c3d-0000-4000-8000-000000000001''))) = 1
   \<and> EvdiClose 8192 \<notin> set (emitted one_display
         (snd (createVirtualDisplay working_evdi one_display ''c1'' ''Test''
            2560 1440 60000 ''0a1b2c3d-0000-4000-8000-000000000001'')))
   \<and> CloseFd 5 \<notin> set (emitted one_display
         (snd (createVirtualDisplay working_evdi one_display ''c1'' ''Test''
            2560 1440 60000 ''0a1b2c3d-0000-4000-8000-000000000001'')))"
proof -
  have h: "driver_status one_display = OK" "registry_wf (virtual_displays one_display)"
    "registry_find ''0a1b2c3d-0000-4000-8000-000000000001'' (virtual_displays one_display)
       = Some hw_display"
    by (simp_all add: one_display_def registry_wf_def)
  have "handle hw_display = 8192" "drm_fd hw_display = 5" "length (virtual_displays one_display) = 1"
    by (simp_all add: hw_display_def one_display_def)
  with createVirtualDisplay_replaces_existing
         [OF h, of working_evdi "''c1''" "''Test''" 2560 1440 60000] h
  show ?thesis by simp
qed

section \<open>The declared length of the descriptor\<close>

lemma nth_store_before:
  "i < off \<Longrightarrow> off \<le> length buf \<Longrightarrow> store off bs buf ! i = buf ! i"
  by (simp add: store_def nth_append)

lemma nth_store_first:
  "off \<le> length buf \<Longrightarrow> store off (b # bs) buf ! off = b"
  by (simp add: store_def nth_append)

lemma generate_edid_extension_block:
  assumes "w > 1920 \<or> h > 1080"
  shows "generate_edid_for_resolution est w h r ! 128 = 2"
  using assms
  unfolding generate_edid_for_resolution_def Let_def
  by (simp add: calculate_edid_checksum_def nth_store_before nth_store_first store_256)

lemma generate_edid_extension_flag:
  "generate_edid_for_resolution est w h r ! 126 = (if w > 1920 \<or> h > 1080 then 1 else 0)"
proof -
  obtain base ext where
    gen: "generate_edid_for_resolution est w h r =
            (if w > 1920 \<or> h > 1080 then calculate_edid_checksum 128 ext
             else calculate_edid_checksum 0 base)"
    and base: "base ! 126 = (if w > 1920 \<or> h > 1080 then 1 else 0)"
    and ext: "take 128 ext = take 128 (calculate_edid_checksum 0 base)"
    using generate_edid_shape [of est w h r] by blast
  have "ext ! 126 = take 128 ext ! 126" by simp
  also have "\<dots> = base ! 126" by (simp add: ext nth_checksum_126)
  finally have "ext ! 126 = base ! 126" .
  then show ?thesis
    by (simp add: gen base calculate_edid_checksum_def)
qed

lemma generate_edid_base_only:
  assumes "\<not> (w > 1920 \<or> h > 1080)"
  shows "drop 128 (generate_edid_for_resolution est w h r) = replicate 128 0"
proof -
  obtain base ext where
    gen: "generate_edid_for_resolution est w h r =
            (if w > 1920 \<or> h > 1080 then calculate_edid_checksum 128 ext
             else calculate_edid_checksum 0 base)"
    and base: "drop 128 base = replicate 128 0"
    using generate_edid_shape [of est w h r] by blast
  with assms show ?thesis by (simp add: drop_checksum_base)
qed

lemma find_device_scan_events: "set (snd (find_device_scan env slots)) \<subseteq> {EvdiAddDevice}"
  by (induction slots) (auto simp: Let_def split: evdi_device_status.splits prod.splits)

text \<open>
  In \<open>createVirtualDisplay\<close> the test is on the same \<open>uint32_t\<close> values that the
  synthesizer sees: the length handed to \<open>evdi.connect\<close> is the length that the
  descriptor itself declares in its extension count, 128 exactly when
  \<open>width \<le> 1920\<close> and \<open>height \<le> 1080\<close>; without an extension the second half of the
  buffer is left cleared.
\<close>

lemma createVirtualDisplay_declared_length:
  assumes "EvdiConnect hdl edid n
             \<in> set (emitted s (snd (createVirtualDisplay env s uid cname w h f guid)))"
  shows "edid = generate_edid_for_resolution (fp_cvt env) w h (f div 1000)
         \<and> length edid = 256
         \<and> n = 128 * (1 + unat (edid ! 126))
         \<and> n = (if w \<le> 1920 \<and> h \<le> 1080 then 128 else 256)
         \<and> (n = 128 \<longrightarrow> drop 128 edid = replicate 128 0)"
proof -
  obtain device devs where find: "find_available_evdi_device env = (device, devs)"
    by (cases "find_available_evdi_device env")
  have devs: "set devs \<subseteq> {EvdiAddDevice}"
    using find_device_scan_events [of env "map int [0..<16]"] find
    by (simp add: find_available_evdi_device_def)
  have "EvdiConnect hdl edid n
          \<in> set (devs @ [EvdiOpen device,
                EvdiConnect (evdi_open env device)
                  (generate_edid_for_resolution (fp_cvt env) w h (f div 1000))
                  (if w > 1920 \<or> h > 1080 then 256 else 128),
                OpenCard device])"
    using assms find devs
    by (auto simp: createVirtualDisplay_def emitted_def Let_def split: if_splits)
  with devs have e: "edid = generate_edid_for_resolution (fp_cvt env) w h (f div 1000)"
    and n: "n = (if w > 1920 \<or> h > 1080 then 256 else 128)"
    by auto
  show ?thesis
  proof (cases "w > 1920 \<or> h > 1080")
    case True
    then show ?thesis
      using e n by (auto simp: generate_edid_length generate_edid_extension_flag)
  next
    case False
    then show ?thesis
      using e n generate_edid_base_only [OF False, of "fp_cvt env" "f div 1000"]
      by (auto simp: generate_edid_length generate_edid_extension_flag)
  qed
qed

text \<open>
  Claim C2: the synthesizer produces 128 bytes of descriptor when \<open>width \<le> 1920\<close> and
  \<open>height \<le> 1080\<close> and 256 bytes otherwise, and the callers declare the payload length
  by the same test. \<open>changeDisplaySettings\<close> applies the test to its \<open>int\<close>
  arguments while the synthesizer reads them as \<open>uint32_t\<close>: for width -1 and height
  1080 the synthesizer builds a descriptor with an extension (extension count 1, CEA tag
  in the second block) and the call declares 128 bytes to \<open>evdi.connect\<close>.
\<close>

theorem changeDisplaySettings_negative_width_declares_base_length:
  "emitted one_display
     (snd (changeDisplaySettings working_evdi one_display ''VIRTUAL-0a1b2c3d'' (- 1) 1080 60000))
     = [EvdiDisconnect 8192,
        EvdiConnect 8192 (generate_edid_for_resolution (fp_cvt working_evdi) (- 1) 1080 60) 128]
   \<and> generate_edid_for_resolution (fp_cvt working_evdi) (- 1) 1080 60 ! 126 = 1
   \<and> generate_edid_for_resolution (fp_cvt working_evdi) (- 1) 1080 60 ! 128 = 2"
proof (intro conjI)
  have ext: "(- 1 :: u32) > 1920 \<or> (1080 :: u32) > 1080" by simp
  show "generate_edid_for_resolution (fp_cvt working_evdi) (- 1) 1080 60 ! 126 = 1"
    using ext by (simp add: generate_edid_extension_flag)
  show "generate_edid_for_resolution (fp_cvt working_evdi) (- 1) 1080 60 ! 128 = 2"
    using ext by (rule generate_edid_extension_block)
  show "emitted one_display
     (snd (changeDisplaySettings working_evdi one_display ''VIRTUAL-0a1b2c3d'' (- 1) 1080 60000))
     = [EvdiDisconnect 8192,
        EvdiConnect 8192 (generate_edid_for_resolution (fp_cvt working_evdi) (- 1) 1080 60) 128]"
    by (simp add: changeDisplaySettings_def emitted_def one_display_def hw_display_def
          int_div_def word_sless_alt)
qed


end
